theory Spec2Isabelle
  imports Main "HOL-Library.Word"
begin

section \<open>The pull request description validator\<close>

text \<open>
  A shallow embedding of the script \<^verbatim>\<open>pr-validate-description.js\<close>: the three section
  validators, the two reporting helpers \<^verbatim>\<open>fail\<close> and \<^verbatim>\<open>pass\<close>, and the three top-level
  calls. The decoding of the environment variable and \<^verbatim>\<open>JSON.parse\<close> are not part of the
  model: a run starts from the parsed description.
\<close>

subsection \<open>JavaScript strings\<close>

text \<open>
  A JavaScript string is a sequence of UTF-16 code units; \<^verbatim>\<open>length\<close> counts code units.
  \<open>ascii\<close> turns a literal of the script into its code units.
\<close>

type_synonym jschar = "16 word"
type_synonym jsstring = "jschar list"

definition ascii :: "string \<Rightarrow> jsstring" where
  "ascii s = map of_char s"

text \<open>
  \<^verbatim>\<open>String.prototype.trim\<close> strips the WhiteSpace and LineTerminator code points of
  ECMAScript from both ends: TAB, VT, FF, SP, NBSP, ZWNBSP, the space separators of Unicode,
  and LF, CR, LS, PS.
\<close>

definition isWhiteSpace :: "jschar \<Rightarrow> bool" where
  "isWhiteSpace c =
     (c = 0x09 \<or> c = 0x0A \<or> c = 0x0B \<or> c = 0x0C \<or> c = 0x0D \<or> c = 0x20 \<or> c = 0xA0
      \<or> c = 0x1680 \<or> (0x2000 \<le> c \<and> c \<le> 0x200A) \<or> c = 0x2028 \<or> c = 0x2029
      \<or> c = 0x202F \<or> c = 0x205F \<or> c = 0x3000 \<or> c = 0xFEFF)"

definition trim :: "jsstring \<Rightarrow> jsstring" where
  "trim s = rev (dropWhile isWhiteSpace (rev (dropWhile isWhiteSpace s)))"

text \<open>
  \<^verbatim>\<open>Array.prototype.join\<close>, on an array of strings. An array that is interpolated into a
  template literal is joined with a comma.
\<close>

fun join :: "jsstring \<Rightarrow> jsstring list \<Rightarrow> jsstring" where
  "join sep [] = []"
| "join sep [x] = x"
| "join sep (x # y # ys) = x @ sep @ join sep (y # ys)"

text \<open>
  \<^verbatim>\<open>/<[^>]+>/.test(s)\<close>: some \<^verbatim>\<open><\<close> of \<open>s\<close> is followed by one code unit or more
  other than \<^verbatim>\<open>></\<close>, and then by a \<^verbatim>\<open>></\<close>. The class \<^verbatim>\<open>[^>]\<close> also matches line
  terminators.
\<close>

fun placeholderRegex_test :: "jsstring \<Rightarrow> bool" where
  "placeholderRegex_test [] = False"
| "placeholderRegex_test (c # cs) =
     (if c = 0x3C \<and> takeWhile (\<lambda>d. d \<noteq> 0x3E) cs \<noteq> []
           \<and> dropWhile (\<lambda>d. d \<noteq> 0x3E) cs \<noteq> []
      then True else placeholderRegex_test cs)"

text \<open>
  \<^verbatim>\<open>s.match(/#\d+/g) ?? []\<close>: the matches from left to right, none overlapping another,
  each a \<^verbatim>\<open>#\<close> with the longest run of the digits 0 to 9 that follows it; the search goes on
  behind the match. Without a match, \<^verbatim>\<open>match\<close> gives null and \<^verbatim>\<open>??\<close> the empty array.
\<close>

definition isDigit :: "jschar \<Rightarrow> bool" where
  "isDigit c = (0x30 \<le> c \<and> c \<le> 0x39)"

function GITHUB_ISSUE_FORMAT_match :: "jsstring \<Rightarrow> jsstring list" where
  "GITHUB_ISSUE_FORMAT_match [] = []"
| "GITHUB_ISSUE_FORMAT_match (c # cs) =
     (if c = 0x23 \<and> takeWhile isDigit cs \<noteq> []
      then (c # takeWhile isDigit cs) # GITHUB_ISSUE_FORMAT_match (dropWhile isDigit cs)
      else GITHUB_ISSUE_FORMAT_match cs)"
  by pat_completeness auto
termination
  by (relation "measure length") (auto simp: length_dropWhile_le less_Suc_eq_le)

text \<open>
  \<^verbatim>\<open>toLowerCase\<close> on the letters A to Z. The lower case mappings of Unicode for letters
  outside ASCII are left out: none of them yields \<^verbatim>\<open>n\<close>, \<^verbatim>\<open>/\<close> or \<^verbatim>\<open>a\<close>, and the script
  only asks whether the lowered text includes \<^verbatim>\<open>n/a\<close>.
\<close>

definition lowerCaseUnit :: "jschar \<Rightarrow> jschar" where
  "lowerCaseUnit c = (if 0x41 \<le> c \<and> c \<le> 0x5A then c + 0x20 else c)"

definition toLowerCase :: "jsstring \<Rightarrow> jsstring" where
  "toLowerCase s = map lowerCaseUnit s"

text \<open>\<^verbatim>\<open>String.prototype.includes\<close> (\<open>includes\<close> is a keyword of Isabelle).\<close>

fun includesStr :: "jsstring \<Rightarrow> jsstring \<Rightarrow> bool" where
  "includesStr [] t = (t = [])"
| "includesStr (c # cs) t = (if take (length t) (c # cs) = t then True else includesStr cs t)"

text \<open>\<^verbatim>\<open>Array.prototype.at(0)\<close>: the first element, or undefined.\<close>

definition at0 :: "'a list \<Rightarrow> 'a option" where
  "at0 xs = (case xs of [] \<Rightarrow> None | x # _ \<Rightarrow> Some x)"

subsection \<open>The parsed description\<close>

text \<open>
  The shapes of the script's type comments. A field that the script guards against being
  absent is an option; \<open>None\<close> stands for undefined and null.
\<close>

record ListItem =
  checked :: bool
  raw :: "jsstring option"

record MarkdownItem =
  type :: jsstring
  raw :: "jsstring option"
  items :: "ListItem list option"

record PRTemplateSection =
  bodies :: "MarkdownItem list option"

record PRDescription =
  Description_of_changes :: "PRTemplateSection option"
  GitHub_issues_resolved_by_this_PR :: "PRTemplateSection option"
  Quality_Assurance :: "PRTemplateSection option"

text \<open>\<^verbatim>\<open>section?.bodies\<close>\<close>

definition optBodies :: "PRTemplateSection option \<Rightarrow> MarkdownItem list option" where
  "optBodies s = (case s of None \<Rightarrow> None | Some sec \<Rightarrow> bodies sec)"

text \<open>\<^verbatim>\<open>bodies.filter((item) => item.type === "list")\<close>\<close>

definition listBlocks :: "MarkdownItem list \<Rightarrow> MarkdownItem list" where
  "listBlocks bs = filter (\<lambda>item. type item = ascii ''list'') bs"

subsection \<open>The process: diagnostic output and exit code\<close>

text \<open>
  \<open>stdout\<close> holds one entry for each call of \<^verbatim>\<open>console.log\<close>, the text that the call
  writes. \<open>exitCode\<close> is \<^verbatim>\<open>process.exitCode\<close>; Node leaves it unset at the start and then
  exits with status 0, so the model starts it at 0.
\<close>

record process =
  stdout :: "jsstring list"
  exitCode :: nat

definition initial :: process where
  "initial = \<lparr>stdout = [], exitCode = 0\<rparr>"

datatype js_error = TypeError

text \<open>
  A validator either returns, or throws with the process as it is at the throw. Nothing
  in the script catches: a throw ends the run.
\<close>

datatype outcome = Returned process | Threw js_error process

fun processOf :: "outcome \<Rightarrow> process" where
  "processOf (Returned p) = p"
| "processOf (Threw e p) = p"

text \<open>Node exits with status 1 on an uncaught exception.\<close>

fun exitStatus :: "outcome \<Rightarrow> nat" where
  "exitStatus (Returned p) = exitCode p"
| "exitStatus (Threw e p) = 1"

definition failLine :: "jsstring \<Rightarrow> jsstring \<Rightarrow> jsstring" where
  "failLine fieldName message =
     [0x274C, 0x20] @ fieldName @ ascii '':'' @ [0x0A] @ ascii ''  > '' @ message"

definition passLine :: "jsstring \<Rightarrow> jsstring \<Rightarrow> jsstring" where
  "passLine fieldName message =
     [0x2705, 0x20] @ fieldName @ ascii '':'' @ [0x0A] @ ascii ''  > '' @ message"

definition fail :: "jsstring \<Rightarrow> jsstring \<Rightarrow> process \<Rightarrow> process" where
  "fail fieldName message p =
     p\<lparr>stdout := stdout p @ [failLine fieldName message], exitCode := 1\<rparr>"

definition pass :: "jsstring \<Rightarrow> jsstring \<Rightarrow> process \<Rightarrow> process" where
  "pass fieldName message p = p\<lparr>stdout := stdout p @ [passLine fieldName message]\<rparr>"

subsection \<open>Description of changes\<close>

text \<open>
  The messages of the script, named after the kinds of failure that they report.
\<close>

definition Description_MissingSection :: jsstring where
  \<open>Description_MissingSection =
     ascii ''Invalid PR template format. The 'Description of changes' section is missing or malformed.''\<close>

definition NoConcreteChanges :: jsstring where
  \<open>NoConcreteChanges =
     ascii ''Pull requests must include at least one specific change in the 'Description of changes' field. Template placeholders are not valid descriptions.''\<close>

definition ChangesNotMeaningful :: jsstring where
  \<open>ChangesNotMeaningful =
     ascii ''Description items must contain meaningful content (more than just a few characters).''\<close>

text \<open>\<^verbatim>\<open>item.items || []\<close>\<close>

definition itemsOrEmpty :: "MarkdownItem \<Rightarrow> ListItem list" where
  "itemsOrEmpty item = (case items item of None \<Rightarrow> [] | Some xs \<Rightarrow> xs)"

text \<open>
  The predicate of the first filter on the list items: false without a raw text (absent
  or empty), and otherwise true only for a trimmed text that is not empty and holds no
  placeholder.
\<close>

definition isConcreteChange :: "ListItem \<Rightarrow> bool" where
  "isConcreteChange item =
     (case ListItem.raw item of
        None \<Rightarrow> False
      | Some r \<Rightarrow>
          if r = [] then False
          else (let isPlaceholder = placeholderRegex_test (trim r)
                in length (trim r) > 0 \<and> \<not> isPlaceholder))"

text \<open>
  The predicate of the second filter reads \<^verbatim>\<open>item.raw.trim()\<close> with no guard of its own:
  on an item without raw text it throws.
\<close>

definition isMeaningfulChange :: "ListItem \<Rightarrow> js_error + bool" where
  "isMeaningfulChange item =
     (case ListItem.raw item of
        None \<Rightarrow> Inl TypeError
      | Some r \<Rightarrow> Inr (length (trim r) > 10))"

text \<open>\<^verbatim>\<open>Array.prototype.filter\<close> with a predicate that may throw: the first throw ends it.\<close>

fun filterThrowing :: "('a \<Rightarrow> js_error + bool) \<Rightarrow> 'a list \<Rightarrow> js_error + 'a list" where
  "filterThrowing f [] = Inr []"
| "filterThrowing f (x # xs) =
     (case f x of
        Inl e \<Rightarrow> Inl e
      | Inr b \<Rightarrow>
          (case filterThrowing f xs of
             Inl e \<Rightarrow> Inl e
           | Inr ys \<Rightarrow> Inr (if b then x # ys else ys)))"

text \<open>\<^verbatim>\<open>join\<close> writes an undefined element as the empty string.\<close>

definition rawOrEmpty :: "ListItem \<Rightarrow> jsstring" where
  "rawOrEmpty item = (case ListItem.raw item of None \<Rightarrow> [] | Some r \<Rightarrow> r)"

definition validateDescriptionOfChanges :: "PRTemplateSection option \<Rightarrow> process \<Rightarrow> outcome" where
  "validateDescriptionOfChanges descriptionOfChanges p =
     (case optBodies descriptionOfChanges of
        None \<Rightarrow> Returned (fail (ascii ''Description of Changes'') Description_MissingSection p)
      | Some bs \<Rightarrow>
          (let changes = filter isConcreteChange (concat (map itemsOrEmpty (listBlocks bs)))
           in if changes = []
              then Returned (fail (ascii ''Description of Changes'') NoConcreteChanges p)
              else
                (case filterThrowing isMeaningfulChange changes of
                   Inl e \<Rightarrow> Threw e p
                 | Inr meaningfulChanges \<Rightarrow>
                     if meaningfulChanges = []
                     then Returned (fail (ascii ''Description of Changes'') ChangesNotMeaningful p)
                     else Returned (pass (ascii ''Description of Changes'')
                            (join ([0x0A] @ ascii ''    > '') (map rawOrEmpty meaningfulChanges)) p))))"

subsection \<open>GitHub issues resolved by this PR\<close>

definition Issues_MissingSection :: jsstring where
  \<open>Issues_MissingSection =
     ascii ''Invalid PR template format. The 'GitHub issues resolved by this PR' section is missing or malformed.''\<close>

definition MissingIssueList :: jsstring where
  \<open>MissingIssueList =
     ascii ''The 'GitHub issues resolved by this PR' section must contain a list of resolved issues.''\<close>

definition MissingResolvedIssues :: "jsstring \<Rightarrow> jsstring" where
  \<open>MissingResolvedIssues r =
     ascii ''Pull requests must specify at least one resolved GitHub issue (e.g., #123) or explicitly state "N/A" if no issue applies, in field "''
     @ r @ ascii ''"''\<close>

definition validateResolvedIssuesSection :: "PRTemplateSection option \<Rightarrow> process \<Rightarrow> outcome" where
  "validateResolvedIssuesSection resolvedIssues p =
     (case optBodies resolvedIssues of
        None \<Rightarrow> Returned (fail (ascii ''GitHub Issues'') Issues_MissingSection p)
      | Some bs \<Rightarrow>
          (case at0 (listBlocks bs) of
             None \<Rightarrow> Returned (fail (ascii ''GitHub Issues'') MissingIssueList p)
           | Some issuesCheckList \<Rightarrow>
               (case MarkdownItem.raw issuesCheckList of
                  None \<Rightarrow> Returned (fail (ascii ''GitHub Issues'') MissingIssueList p)
                | Some r \<Rightarrow>
                    if r = [] then Returned (fail (ascii ''GitHub Issues'') MissingIssueList p)
                    else
                      (let issueList = GITHUB_ISSUE_FORMAT_match r
                       in if length issueList = 0 \<and> \<not> includesStr (toLowerCase r) (ascii ''n/a'')
                          then Returned (fail (ascii ''Missing Resolved Issues'')
                                 (MissingResolvedIssues r) p)
                          else Returned (pass (ascii ''Issues resolved by this pull request'')
                                 (if length issueList > 0 then join (ascii '','') issueList
                                  else ascii ''N/A'') p)))))"

subsection \<open>Quality assurance\<close>

definition QA_MissingSection :: jsstring where
  \<open>QA_MissingSection =
     ascii ''Invalid PR template format. The 'Quality Assurance' section is missing or malformed.''\<close>

definition MissingChecklist :: jsstring where
  \<open>MissingChecklist =
     ascii ''The 'Quality Assurance' section must contain a list with success criteria.''\<close>

definition EmptyChecklist :: jsstring where
  \<open>EmptyChecklist =
     ascii ''The success criteria list in the 'Quality Assurance' section cannot be empty.''\<close>

definition InvalidCriteriaFormat :: jsstring where
  \<open>InvalidCriteriaFormat =
     ascii ''Invalid success criteria format in the 'Quality Assurance' section.''\<close>

definition PlaceholderCriteria :: "jsstring \<Rightarrow> jsstring" where
  \<open>PlaceholderCriteria r =
     ascii ''Pull requests must have a short description of success criteria, in field "''
     @ r @ ascii ''"''\<close>

definition SUCCESS_CRITERIA_TITLE :: jsstring where
  "SUCCESS_CRITERIA_TITLE =
     ascii ''- Once the changes in this PR are merged and deployed, success criteria is:''"

text \<open>
  After the two guards on the list, the script takes the first item. A missing raw text
  (absent or empty) is reported, and the script goes on: \<^verbatim>\<open>successCriteria.raw.trim()\<close>
  throws on an absent raw text. A raw text equal to the title is reported, and the script
  goes on to \<^verbatim>\<open>pass\<close>.
\<close>

definition validateQaSection :: "PRTemplateSection option \<Rightarrow> process \<Rightarrow> outcome" where
  "validateQaSection qaSection p =
     (case optBodies qaSection of
        None \<Rightarrow> Returned (fail (ascii ''Quality Assurance'') QA_MissingSection p)
      | Some bs \<Rightarrow>
          (case at0 (listBlocks bs) of
             None \<Rightarrow> Returned (fail (ascii ''Quality Assurance'') MissingChecklist p)
           | Some qaCheckList \<Rightarrow>
               (case items qaCheckList of
                  None \<Rightarrow> Returned (fail (ascii ''Quality Assurance'') EmptyChecklist p)
                | Some [] \<Rightarrow> Returned (fail (ascii ''Quality Assurance'') EmptyChecklist p)
                | Some (successCriteria # _) \<Rightarrow>
                    (let p1 = (if ListItem.raw successCriteria = None
                                  \<or> ListItem.raw successCriteria = Some []
                               then fail (ascii ''Quality Assurance'') InvalidCriteriaFormat p
                               else p)
                     in case ListItem.raw successCriteria of
                          None \<Rightarrow> Threw TypeError p1
                        | Some r \<Rightarrow>
                            (let p2 = (if trim r = SUCCESS_CRITERIA_TITLE
                                       then fail (ascii ''Success criteria'') (PlaceholderCriteria r) p1
                                       else p1)
                             in Returned (pass (ascii ''Success criteria'') r p2))))))"

subsection \<open>The run\<close>

text \<open>The next statement runs only when the one before has returned.\<close>

fun andThen :: "outcome \<Rightarrow> (process \<Rightarrow> outcome) \<Rightarrow> outcome" where
  "andThen (Returned p) f = f p"
| "andThen (Threw e p) f = Threw e p"

definition run :: "PRDescription \<Rightarrow> outcome" where
  "run prDescription =
     andThen (andThen (validateDescriptionOfChanges (Description_of_changes prDescription) initial)
                (validateResolvedIssuesSection (GitHub_issues_resolved_by_this_PR prDescription)))
       (validateQaSection (Quality_Assurance prDescription))"

subsection \<open>Reading the output and the payload\<close>

text \<open>A line written by \<^verbatim>\<open>fail\<close> starts with the cross mark, one written by \<^verbatim>\<open>pass\<close> with the check mark.\<close>

definition isFailLine :: "jsstring \<Rightarrow> bool" where
  "isFailLine l = (take 1 l = [0x274C])"

definition isPassLine :: "jsstring \<Rightarrow> bool" where
  "isPassLine l = (take 1 l = [0x2705])"

text \<open>
  A section check has passed when the validator, on a fresh process, returns and has
  written one line, a pass line.
\<close>

definition checkPassed ::
  "(PRTemplateSection option \<Rightarrow> process \<Rightarrow> outcome) \<Rightarrow> PRTemplateSection option \<Rightarrow> bool" where
  "checkPassed validate s =
     (case validate s initial of
        Returned p \<Rightarrow> (case stdout p of [l] \<Rightarrow> isPassLine l | _ \<Rightarrow> False)
      | Threw e p \<Rightarrow> False)"

text \<open>
  In the words of the specification: the list items of all list-typed blocks, flattened in
  order; the trimmed raw text of an item (empty when the raw text is absent); the items
  that are left when those with an empty trimmed text and those with a placeholder in it
  are taken out; and of these, the items with a trimmed text of more than 10 code units.
\<close>

definition allListItems :: "MarkdownItem list \<Rightarrow> ListItem list" where
  "allListItems bs = concat (map itemsOrEmpty (filter (\<lambda>b. type b = ascii ''list'') bs))"

definition trimmedRaw :: "ListItem \<Rightarrow> jsstring" where
  "trimmedRaw item = trim (rawOrEmpty item)"

definition concreteItems :: "MarkdownItem list \<Rightarrow> ListItem list" where
  "concreteItems bs =
     filter (\<lambda>item. \<not> placeholderRegex_test (trimmedRaw item))
       (filter (\<lambda>item. trimmedRaw item \<noteq> []) (allListItems bs))"

definition meaningfulItems :: "MarkdownItem list \<Rightarrow> ListItem list" where
  "meaningfulItems bs = filter (\<lambda>item. 10 < length (trimmedRaw item)) (concreteItems bs)"

text \<open>The first list-typed block of a sequence of blocks, and its raw text (empty when absent).\<close>

definition firstListBlock :: "MarkdownItem list \<Rightarrow> MarkdownItem option" where
  "firstListBlock bs = at0 (filter (\<lambda>b. type b = ascii ''list'') bs)"

definition blockRawOrEmpty :: "MarkdownItem \<Rightarrow> jsstring" where
  "blockRawOrEmpty b = (case MarkdownItem.raw b of None \<Rightarrow> [] | Some r \<Rightarrow> r)"

text \<open>
  Two payloads differ only in the checked fields of their list items when they are equal
  once every checked field is reset.
\<close>

definition uncheckItem :: "ListItem \<Rightarrow> ListItem" where
  "uncheckItem item = item\<lparr>checked := False\<rparr>"

definition uncheckBlock :: "MarkdownItem \<Rightarrow> MarkdownItem" where
  "uncheckBlock b = b\<lparr>items := map_option (map uncheckItem) (items b)\<rparr>"

definition uncheckSection :: "PRTemplateSection \<Rightarrow> PRTemplateSection" where
  "uncheckSection s = s\<lparr>bodies := map_option (map uncheckBlock) (bodies s)\<rparr>"

definition uncheckDescription :: "PRDescription \<Rightarrow> PRDescription" where
  "uncheckDescription d =
     \<lparr>Description_of_changes = map_option uncheckSection (Description_of_changes d),
      GitHub_issues_resolved_by_this_PR =
        map_option uncheckSection (GitHub_issues_resolved_by_this_PR d),
      Quality_Assurance = map_option uncheckSection (Quality_Assurance d)\<rparr>"

subsection \<open>Example payloads\<close>

text \<open>
  A description whose three sections are filled in, and the same description with the
  check boxes ticked.
\<close>

definition filledDescription :: "bool \<Rightarrow> PRDescription" where
  "filledDescription ticked =
     \<lparr>Description_of_changes = Some \<lparr>bodies = Some
        [\<lparr>type = ascii ''list'', raw = Some (ascii ''- Fixed the login bug''),
          items = Some [\<lparr>checked = ticked, raw = Some (ascii ''Fixed the login bug'')\<rparr>]\<rparr>]\<rparr>,
      GitHub_issues_resolved_by_this_PR = Some \<lparr>bodies = Some
        [\<lparr>type = ascii ''list'', raw = Some (ascii ''- Fixes #42 and #108''),
          items = Some [\<lparr>checked = ticked, raw = Some (ascii ''Fixes #42 and #108'')\<rparr>]\<rparr>]\<rparr>,
      Quality_Assurance = Some \<lparr>bodies = Some
        [\<lparr>type = ascii ''list'', raw = Some (ascii ''- The login page loads''),
          items = Some [\<lparr>checked = ticked, raw = Some (ascii ''The login page loads'')\<rparr>]\<rparr>]\<rparr>\<rparr>"

text \<open>
  A quality assurance section with one list-typed block of one item, with the given raw
  text for the item.
\<close>

definition qaSectionWith :: "jsstring option \<Rightarrow> PRTemplateSection option" where
  "qaSectionWith r =
     Some \<lparr>bodies = Some [\<lparr>type = ascii ''list'', raw = r,
                             items = Some [\<lparr>checked = False, raw = r\<rparr>]\<rparr>]\<rparr>"

section \<open>Properties\<close>

subsection \<open>The string operations against their descriptions\<close>

text \<open>
  \<open>trim\<close> cuts white space from both ends and nothing else: what it leaves neither
  starts nor ends with white space.
\<close>

lemma trim_decomposition:
  "\<exists>l r. s = l @ trim s @ r \<and> list_all isWhiteSpace l \<and> list_all isWhiteSpace r"
proof -
  let ?t = "dropWhile isWhiteSpace s"
  have "rev ?t = takeWhile isWhiteSpace (rev ?t) @ dropWhile isWhiteSpace (rev ?t)"
    by simp
  then have "rev (rev ?t) = rev (takeWhile isWhiteSpace (rev ?t) @ dropWhile isWhiteSpace (rev ?t))"
    by (rule arg_cong)
  then have t: "?t = trim s @ rev (takeWhile isWhiteSpace (rev ?t))"
    unfolding trim_def rev_append rev_rev_ident .
  have "s = takeWhile isWhiteSpace s @ ?t"
    by simp
  with t have "s = takeWhile isWhiteSpace s @ trim s @ rev (takeWhile isWhiteSpace (rev ?t))"
    by simp
  moreover have "list_all isWhiteSpace (takeWhile isWhiteSpace s)"
    by (auto simp: list_all_iff dest: set_takeWhileD)
  moreover have "list_all isWhiteSpace (rev (takeWhile isWhiteSpace (rev ?t)))"
    by (auto simp: list_all_iff dest: set_takeWhileD)
  ultimately show ?thesis
    by blast
qed

lemma trim_ends:
  assumes "trim s \<noteq> []"
  shows "\<not> isWhiteSpace (hd (trim s))" and "\<not> isWhiteSpace (last (trim s))"
proof -
  let ?t = "dropWhile isWhiteSpace s"
  let ?u = "dropWhile isWhiteSpace (rev ?t)"
  from assms have u: "?u \<noteq> []"
    by (simp add: trim_def)
  then have "\<not> isWhiteSpace (hd ?u)"
    by (rule hd_dropWhile)
  then show "\<not> isWhiteSpace (last (trim s))"
    using u by (simp add: trim_def last_rev)
  have t: "?t \<noteq> []"
  proof
    assume "?t = []"
    then have "?u = []"
      by (simp only: rev.simps dropWhile.simps)
    with u show False
      by simp
  qed
  then have "\<not> isWhiteSpace (hd ?t)"
    by (rule hd_dropWhile)
  moreover have "last ?u = last (rev ?t)"
    using u by (metis last_appendR takeWhile_dropWhile_id)
  ultimately show "\<not> isWhiteSpace (hd (trim s))"
    using u t by (simp add: trim_def hd_rev last_rev)
qed

text \<open>
  The placeholder test holds exactly for a text with a \<^verbatim>\<open><\<close>, then one code unit or more
  without \<^verbatim>\<open>></\<close>, then a \<^verbatim>\<open>></\<close>.
\<close>

lemma placeholderRegex_test_iff:
  "placeholderRegex_test s \<longleftrightarrow>
     (\<exists>pre mid post. s = pre @ [0x3C] @ mid @ [0x3E] @ post \<and> mid \<noteq> [] \<and> 0x3E \<notin> set mid)"
proof
  show "placeholderRegex_test s \<Longrightarrow>
     \<exists>pre mid post. s = pre @ [0x3C] @ mid @ [0x3E] @ post \<and> mid \<noteq> [] \<and> 0x3E \<notin> set mid"
  proof (induction s)
    case Nil
    then show ?case by simp
  next
    case (Cons c cs)
    let ?mid = "takeWhile (\<lambda>d. d \<noteq> 0x3E) cs"
    let ?rest = "dropWhile (\<lambda>d. d \<noteq> 0x3E) cs"
    show ?case
    proof (cases "c = 0x3C \<and> ?mid \<noteq> [] \<and> ?rest \<noteq> []")
      case True
      then have "hd ?rest = 0x3E"
        using hd_dropWhile [of "\<lambda>d. d \<noteq> 0x3E" cs] by simp
      with True have "?rest = [0x3E] @ tl ?rest"
        by (cases ?rest) simp_all
      then have "cs = ?mid @ [0x3E] @ tl ?rest"
        by (metis takeWhile_dropWhile_id)
      with True have "c # cs = [] @ [0x3C] @ ?mid @ [0x3E] @ tl ?rest"
        by simp
      moreover have "0x3E \<notin> set ?mid"
        by (auto dest: set_takeWhileD)
      ultimately show ?thesis
        using True by blast
    next
      case False
      with Cons.prems have "placeholderRegex_test cs"
        by (auto split: if_splits)
      with Cons.IH obtain pre mid post
        where "cs = pre @ [0x3C] @ mid @ [0x3E] @ post" "mid \<noteq> []" "0x3E \<notin> set mid"
        by blast
      then have "c # cs = (c # pre) @ [0x3C] @ mid @ [0x3E] @ post \<and> mid \<noteq> [] \<and> 0x3E \<notin> set mid"
        by simp
      then show ?thesis
        by blast
    qed
  qed
next
  assume "\<exists>pre mid post. s = pre @ [0x3C] @ mid @ [0x3E] @ post \<and> mid \<noteq> [] \<and> 0x3E \<notin> set mid"
  then obtain pre mid post
    where s: "s = pre @ [0x3C] @ mid @ [0x3E] @ post" and mid: "mid \<noteq> []" "0x3E \<notin> set mid"
    by blast
  have tw: "takeWhile (\<lambda>d. d \<noteq> 0x3E) (mid @ [0x3E] @ post) = mid"
    using mid(2) by (induction mid) auto
  have dw: "dropWhile (\<lambda>d. d \<noteq> 0x3E) (mid @ [0x3E] @ post) = [0x3E] @ post"
    using mid(2) by (induction mid) auto
  have "placeholderRegex_test (pre @ [0x3C] @ mid @ [0x3E] @ post)"
  proof (induction pre)
    case Nil
    show ?case
      using tw dw mid(1) by simp
  next
    case (Cons c pre)
    then show ?case
      by simp
  qed
  with s show "placeholderRegex_test s"
    by simp
qed

text \<open>\<open>includesStr\<close> is the substring test.\<close>

lemma includesStr_iff: "includesStr s t \<longleftrightarrow> (\<exists>pre post. s = pre @ t @ post)"
proof (induction s)
  case Nil
  show ?case by auto
next
  case (Cons c cs)
  show ?case
  proof (cases "take (length t) (c # cs) = t")
    case True
    then have "c # cs = [] @ t @ drop (length t) (c # cs)"
      by (metis append_Nil append_take_drop_id)
    then have "\<exists>pre post. c # cs = pre @ t @ post"
      by blast
    with True show ?thesis
      by simp
  next
    case False
    have "(\<exists>pre post. c # cs = pre @ t @ post) \<longleftrightarrow> (\<exists>pre post. cs = pre @ t @ post)"
    proof
      assume "\<exists>pre post. c # cs = pre @ t @ post"
      then obtain pre post where e: "c # cs = pre @ t @ post"
        by blast
      show "\<exists>pre post. cs = pre @ t @ post"
      proof (cases pre)
        case Nil
        with e have "take (length t) (c # cs) = t"
          by simp
        with False show ?thesis
          by simp
      next
        case (Cons a pre')
        with e have "cs = pre' @ t @ post"
          by simp
        then show ?thesis
          by blast
      qed
    next
      assume "\<exists>pre post. cs = pre @ t @ post"
      then obtain pre post where "cs = pre @ t @ post"
        by blast
      then have "c # cs = (c # pre) @ t @ post"
        by simp
      then show "\<exists>pre post. c # cs = pre @ t @ post"
        by blast
    qed
    with False Cons.IH show ?thesis
      by simp
  qed
qed

text \<open>Every match is a \<^verbatim>\<open>#\<close> with one digit or more behind it.\<close>

lemma GITHUB_ISSUE_FORMAT_match_shape:
  "m \<in> set (GITHUB_ISSUE_FORMAT_match s) \<Longrightarrow>
     \<exists>ds. m = 0x23 # ds \<and> ds \<noteq> [] \<and> list_all isDigit ds"
proof (induction s rule: GITHUB_ISSUE_FORMAT_match.induct)
  case 1
  then show ?case by simp
next
  case (2 c cs)
  show ?case
  proof (cases "c = 0x23 \<and> takeWhile isDigit cs \<noteq> []")
    case True
    with "2.prems" consider "m = 0x23 # takeWhile isDigit cs"
      | "m \<in> set (GITHUB_ISSUE_FORMAT_match (dropWhile isDigit cs))"
      by auto
    then show ?thesis
    proof cases
      case 1
      moreover have "list_all isDigit (takeWhile isDigit cs)"
        by (auto simp: list_all_iff dest: set_takeWhileD)
      ultimately show ?thesis
        using True by blast
    next
      case 2
      with True "2.IH"(1) show ?thesis
        by blast
    qed
  next
    case False
    with "2.prems" have "m \<in> set (GITHUB_ISSUE_FORMAT_match cs)"
      by (auto split: if_splits)
    with False "2.IH"(2) show ?thesis
      by blast
  qed
qed

text \<open>There is a match exactly when some \<^verbatim>\<open>#\<close> of the text is followed by a digit.\<close>

lemma GITHUB_ISSUE_FORMAT_match_nonempty_iff:
  "GITHUB_ISSUE_FORMAT_match s \<noteq> [] \<longleftrightarrow>
     (\<exists>pre d post. s = pre @ [0x23, d] @ post \<and> isDigit d)"
proof (induction s)
  case Nil
  show ?case by simp
next
  case (Cons c cs)
  show ?case
  proof (cases "c = 0x23 \<and> takeWhile isDigit cs \<noteq> []")
    case True
    then obtain d rest where cs: "cs = d # rest" and d: "isDigit d"
      by (cases cs) (auto split: if_splits)
    then have "c # cs = [] @ [0x23, d] @ rest"
      using True by simp
    with d have "\<exists>pre d post. c # cs = pre @ [0x23, d] @ post \<and> isDigit d"
      by blast
    with True show ?thesis
      by simp
  next
    case False
    have "(\<exists>pre d post. c # cs = pre @ [0x23, d] @ post \<and> isDigit d)
            \<longleftrightarrow> (\<exists>pre d post. cs = pre @ [0x23, d] @ post \<and> isDigit d)"
    proof
      assume "\<exists>pre d post. c # cs = pre @ [0x23, d] @ post \<and> isDigit d"
      then obtain pre d post where e: "c # cs = pre @ [0x23, d] @ post" and d: "isDigit d"
        by blast
      show "\<exists>pre d post. cs = pre @ [0x23, d] @ post \<and> isDigit d"
      proof (cases pre)
        case Nil
        with e d have "c = 0x23 \<and> takeWhile isDigit cs \<noteq> []"
          by auto
        with False show ?thesis
          by simp
      next
        case (Cons a pre')
        with e have "cs = pre' @ [0x23, d] @ post"
          by simp
        with d show ?thesis
          by blast
      qed
    next
      assume "\<exists>pre d post. cs = pre @ [0x23, d] @ post \<and> isDigit d"
      then obtain pre d post where "cs = pre @ [0x23, d] @ post" and d: "isDigit d"
        by blast
      then have "c # cs = (c # pre) @ [0x23, d] @ post"
        by simp
      with d show "\<exists>pre d post. c # cs = pre @ [0x23, d] @ post \<and> isDigit d"
        by blast
    qed
    with False Cons.IH show ?thesis
      by auto
  qed
qed

text \<open>
  The matches come in the order of the text: the first match stands behind a stretch
  without a match, and the other matches are those of the text behind it.
\<close>

lemma GITHUB_ISSUE_FORMAT_match_first:
  "GITHUB_ISSUE_FORMAT_match s = m # ms \<Longrightarrow>
     \<exists>pre post. s = pre @ m @ post \<and> GITHUB_ISSUE_FORMAT_match pre = []
        \<and> GITHUB_ISSUE_FORMAT_match post = ms"
proof (induction s)
  case Nil
  then show ?case by simp
next
  case (Cons c cs)
  show ?case
  proof (cases "c = 0x23 \<and> takeWhile isDigit cs \<noteq> []")
    case True
    with Cons.prems have m: "m = c # takeWhile isDigit cs"
      and ms: "GITHUB_ISSUE_FORMAT_match (dropWhile isDigit cs) = ms"
      by simp_all
    have "c # cs = [] @ m @ dropWhile isDigit cs"
      by (simp add: m)
    with ms show ?thesis
      by (metis GITHUB_ISSUE_FORMAT_match.simps(1))
  next
    case False
    with Cons.prems have "GITHUB_ISSUE_FORMAT_match cs = m # ms"
      by (auto split: if_splits)
    with Cons.IH obtain pre post where cs: "cs = pre @ m @ post"
      and pre: "GITHUB_ISSUE_FORMAT_match pre = []"
      and post: "GITHUB_ISSUE_FORMAT_match post = ms"
      by blast
    have "takeWhile isDigit pre \<noteq> [] \<Longrightarrow> takeWhile isDigit cs \<noteq> []"
      by (cases pre) (auto simp: cs split: if_splits)
    with False have "\<not> (c = 0x23 \<and> takeWhile isDigit pre \<noteq> [])"
      by blast
    then have "GITHUB_ISSUE_FORMAT_match (c # pre) = []"
      using pre by auto
    moreover have "c # cs = (c # pre) @ m @ post"
      by (simp add: cs)
    ultimately show ?thesis
      using post by blast
  qed
qed

text \<open>
  The lowered text includes \<^verbatim>\<open>n/a\<close> exactly when the text holds \<^verbatim>\<open>n/a\<close> with each of
  the two letters in either case.
\<close>

lemma lowerCaseUnit_n: "lowerCaseUnit c = 0x6E \<longleftrightarrow> c = 0x6E \<or> c = 0x4E"
proof -
  have "c + 0x20 = 0x6E \<longleftrightarrow> c = 0x4E"
  proof
    assume "c + 0x20 = 0x6E"
    then have "c + 0x20 - 0x20 = 0x6E - 0x20"
      by (rule arg_cong)
    then show "c = 0x4E"
      by simp
  qed simp
  then show ?thesis
    by (auto simp: lowerCaseUnit_def)
qed

lemma lowerCaseUnit_a: "lowerCaseUnit c = 0x61 \<longleftrightarrow> c = 0x61 \<or> c = 0x41"
proof -
  have "c + 0x20 = 0x61 \<longleftrightarrow> c = 0x41"
  proof
    assume "c + 0x20 = 0x61"
    then have "c + 0x20 - 0x20 = 0x61 - 0x20"
      by (rule arg_cong)
    then show "c = 0x41"
      by simp
  qed simp
  then show ?thesis
    by (auto simp: lowerCaseUnit_def)
qed

lemma lowerCaseUnit_slash: "lowerCaseUnit c = 0x2F \<longleftrightarrow> c = 0x2F"
proof -
  have "c + 0x20 = 0x2F \<longleftrightarrow> c = 0x0F"
  proof
    assume "c + 0x20 = 0x2F"
    then have "c + 0x20 - 0x20 = 0x2F - 0x20"
      by (rule arg_cong)
    then show "c = 0x0F"
      by simp
  qed simp
  then show ?thesis
    by (auto simp: lowerCaseUnit_def)
qed

lemma toLowerCase_includes_na:
  "includesStr (toLowerCase r) (ascii ''n/a'') \<longleftrightarrow>
     (\<exists>pre c1 c3 post. r = pre @ [c1, 0x2F, c3] @ post
        \<and> (c1 = 0x6E \<or> c1 = 0x4E) \<and> (c3 = 0x61 \<or> c3 = 0x41))"
proof
  assume "includesStr (toLowerCase r) (ascii ''n/a'')"
  then obtain pre' post' where "map lowerCaseUnit r = pre' @ [0x6E, 0x2F, 0x61] @ post'"
    by (auto simp: includesStr_iff toLowerCase_def ascii_def)
  then obtain pre vs where r: "r = pre @ vs"
    and vs: "map lowerCaseUnit vs = [0x6E, 0x2F, 0x61] @ post'"
    by (auto simp: map_eq_append_conv)
  from vs obtain c1 c2 c3 post where "vs = [c1, c2, c3] @ post"
    and "lowerCaseUnit c1 = 0x6E" and "lowerCaseUnit c2 = 0x2F" and "lowerCaseUnit c3 = 0x61"
    by (auto simp: map_eq_Cons_conv)
  with r have "r = pre @ [c1, 0x2F, c3] @ post \<and> (c1 = 0x6E \<or> c1 = 0x4E) \<and> (c3 = 0x61 \<or> c3 = 0x41)"
    by (simp add: lowerCaseUnit_n lowerCaseUnit_a lowerCaseUnit_slash)
  then show "\<exists>pre c1 c3 post. r = pre @ [c1, 0x2F, c3] @ post
        \<and> (c1 = 0x6E \<or> c1 = 0x4E) \<and> (c3 = 0x61 \<or> c3 = 0x41)"
    by blast
next
  assume "\<exists>pre c1 c3 post. r = pre @ [c1, 0x2F, c3] @ post
        \<and> (c1 = 0x6E \<or> c1 = 0x4E) \<and> (c3 = 0x61 \<or> c3 = 0x41)"
  then obtain pre c1 c3 post where r: "r = pre @ [c1, 0x2F, c3] @ post"
    and c: "lowerCaseUnit c1 = 0x6E" "lowerCaseUnit c3 = 0x61"
    unfolding lowerCaseUnit_n lowerCaseUnit_a by blast
  have "lowerCaseUnit 0x2F = 0x2F"
    by (simp add: lowerCaseUnit_slash)
  with r c have "toLowerCase r
      = map lowerCaseUnit pre @ ascii ''n/a'' @ map lowerCaseUnit post"
    by (simp add: toLowerCase_def ascii_def)
  then show "includesStr (toLowerCase r) (ascii ''n/a'')"
    unfolding includesStr_iff by blast
qed

subsection \<open>The reporting helpers\<close>

lemma stdout_fail: "stdout (fail f m p) = stdout p @ [failLine f m]"
  by (simp add: fail_def)

lemma exitCode_fail: "exitCode (fail f m p) = 1"
  by (simp add: fail_def)

lemma stdout_pass: "stdout (pass f m p) = stdout p @ [passLine f m]"
  by (simp add: pass_def)

lemma exitCode_pass: "exitCode (pass f m p) = exitCode p"
  by (simp add: pass_def)

lemma isPassLine_passLine: "isPassLine (passLine f m)"
  by (simp add: isPassLine_def passLine_def)

lemma isFailLine_failLine: "isFailLine (failLine f m)"
  by (simp add: isFailLine_def failLine_def)

lemma not_isPassLine_failLine: "\<not> isPassLine (failLine f m)"
  by (simp add: isPassLine_def failLine_def)

lemma not_isFailLine_passLine: "\<not> isFailLine (passLine f m)"
  by (simp add: isFailLine_def passLine_def)

subsection \<open>A section without bodies\<close>

text \<open>
  Claim C7. Each of the three validators, on a section value that is absent or whose
  bodies field is absent, reports its missing-section message through \<open>fail\<close> and
  returns: the outcome is that one call of \<open>fail\<close> on the process, whatever else
  the section holds.
\<close>

theorem missing_section:
  assumes "s = None \<or> (\<exists>sec. s = Some sec \<and> bodies sec = None)"
  shows "validateDescriptionOfChanges s p
           = Returned (fail (ascii ''Description of Changes'') Description_MissingSection p)
       \<and> validateResolvedIssuesSection s p
           = Returned (fail (ascii ''GitHub Issues'') Issues_MissingSection p)
       \<and> validateQaSection s p
           = Returned (fail (ascii ''Quality Assurance'') QA_MissingSection p)"
proof -
  from assms have "optBodies s = None"
    by (auto simp: optBodies_def)
  then show ?thesis
    by (simp add: validateDescriptionOfChanges_def validateResolvedIssuesSection_def
        validateQaSection_def)
qed

theorem missing_section_witness:
  "validateDescriptionOfChanges None initial
     = Returned (fail (ascii ''Description of Changes'') Description_MissingSection initial)
   \<and> validateResolvedIssuesSection (Some \<lparr>bodies = None\<rparr>) initial
     = Returned (fail (ascii ''GitHub Issues'') Issues_MissingSection initial)
   \<and> validateQaSection (Some \<lparr>bodies = None\<rparr>) initial
     = Returned (fail (ascii ''Quality Assurance'') QA_MissingSection initial)"
  using missing_section [of None initial]
    missing_section [of "Some \<lparr>bodies = None\<rparr>" initial]
  by simp

subsection \<open>The guards of the quality assurance checklist\<close>

text \<open>
  Claim C8. On a quality assurance section with bodies: without a list-typed block among
  them the validator fails with \<open>MissingChecklist\<close> and returns; with one, whose item
  sequence is absent or empty, it fails with \<open>EmptyChecklist\<close> and returns. In both
  cases the outcome is that one call of \<open>fail\<close>: no item is looked at.
\<close>

theorem qa_checklist_guards:
  assumes "optBodies s = Some bs"
  shows "(firstListBlock bs = None \<longrightarrow>
            validateQaSection s p
              = Returned (fail (ascii ''Quality Assurance'') MissingChecklist p))
       \<and> (\<forall>b. firstListBlock bs = Some b \<and> (items b = None \<or> items b = Some []) \<longrightarrow>
            validateQaSection s p
              = Returned (fail (ascii ''Quality Assurance'') EmptyChecklist p))"
  using assms
  by (auto simp: validateQaSection_def firstListBlock_def listBlocks_def)

theorem qa_checklist_guards_witness:
  "optBodies (Some \<lparr>bodies = Some []\<rparr>) = Some []
   \<and> firstListBlock [] = None
   \<and> validateQaSection (Some \<lparr>bodies = Some []\<rparr>) initial
       = Returned (fail (ascii ''Quality Assurance'') MissingChecklist initial)
   \<and> firstListBlock [\<lparr>type = ascii ''list'', raw = None, items = Some []\<rparr>]
       = Some \<lparr>type = ascii ''list'', raw = None, items = Some []\<rparr>
   \<and> validateQaSection
         (Some \<lparr>bodies = Some [\<lparr>type = ascii ''list'', raw = None, items = Some []\<rparr>]\<rparr>) initial
       = Returned (fail (ascii ''Quality Assurance'') EmptyChecklist initial)"
  using qa_checklist_guards [of "Some \<lparr>bodies = Some []\<rparr>" "[]" initial]
    qa_checklist_guards [of "Some \<lparr>bodies = Some [\<lparr>type = ascii ''list'', raw = None, items = Some []\<rparr>]\<rparr>"
      "[\<lparr>type = ascii ''list'', raw = None, items = Some []\<rparr>]" initial]
  by (simp add: optBodies_def firstListBlock_def at0_def)

subsection \<open>A first checklist item without raw text\<close>

text \<open>
  Claim C3. When the first item of the first list-typed block of the quality assurance
  section has no raw text, the validator reports \<open>InvalidCriteriaFormat\<close> through
  \<open>fail\<close> and goes on to the placeholder check, which dereferences the absent raw text:
  the validator throws a TypeError, with the failure already reported.
\<close>

theorem qa_missing_raw_falls_through:
  assumes "optBodies s = Some bs" and "firstListBlock bs = Some b"
    and "items b = Some (item # rest)" and "ListItem.raw item = None"
  shows "validateQaSection s p
           = Threw TypeError (fail (ascii ''Quality Assurance'') InvalidCriteriaFormat p)"
  using assms
  by (simp add: validateQaSection_def firstListBlock_def listBlocks_def)

theorem qa_missing_raw_falls_through_witness:
  "validateQaSection
     (Some \<lparr>bodies = Some [\<lparr>type = ascii ''list'', raw = None,
                             items = Some [\<lparr>checked = True, raw = None\<rparr>]\<rparr>]\<rparr>) initial
     = Threw TypeError (fail (ascii ''Quality Assurance'') InvalidCriteriaFormat initial)
   \<and> stdout (fail (ascii ''Quality Assurance'') InvalidCriteriaFormat initial)
     = [failLine (ascii ''Quality Assurance'') InvalidCriteriaFormat]"
  using qa_missing_raw_falls_through
    [of "Some \<lparr>bodies = Some [\<lparr>type = ascii ''list'', raw = None,
                                 items = Some [\<lparr>checked = True, raw = None\<rparr>]\<rparr>]\<rparr>"
        "[\<lparr>type = ascii ''list'', raw = None, items = Some [\<lparr>checked = True, raw = None\<rparr>]\<rparr>]"
        "\<lparr>type = ascii ''list'', raw = None, items = Some [\<lparr>checked = True, raw = None\<rparr>]\<rparr>"
        "\<lparr>checked = True, raw = None\<rparr>" "[]" initial]
  by (simp add: optBodies_def firstListBlock_def at0_def stdout_fail initial_def)

subsection \<open>Description of changes\<close>

lemma trim_Nil: "trim [] = []"
  by (simp add: trim_def)

lemma isConcreteChange_iff:
  "isConcreteChange item \<longleftrightarrow>
     trimmedRaw item \<noteq> [] \<and> \<not> placeholderRegex_test (trimmedRaw item)"
  by (auto simp: isConcreteChange_def trimmedRaw_def rawOrEmpty_def trim_Nil Let_def
      split: option.splits)

lemma changes_eq:
  "filter isConcreteChange (concat (map itemsOrEmpty (listBlocks bs))) = concreteItems bs"
proof -
  have "isConcreteChange =
          (\<lambda>item. trimmedRaw item \<noteq> [] \<and> \<not> placeholderRegex_test (trimmedRaw item))"
    by (rule ext) (rule isConcreteChange_iff)
  then show ?thesis
    by (simp add: concreteItems_def allListItems_def listBlocks_def conj_commute)
qed

text \<open>The second filter never throws: the first one has left only items with a raw text.\<close>

lemma filterThrowing_concrete:
  "list_all isConcreteChange xs \<Longrightarrow>
     filterThrowing isMeaningfulChange xs
       = Inr (filter (\<lambda>item. 10 < length (trimmedRaw item)) xs)"
proof (induction xs)
  case Nil
  show ?case by simp
next
  case (Cons x xs)
  from Cons.prems obtain r where r: "ListItem.raw x = Some r"
    by (auto simp: isConcreteChange_def split: option.splits)
  from Cons show ?case
    by (simp add: r isMeaningfulChange_def trimmedRaw_def rawOrEmpty_def)
qed

lemma meaningfulChanges_eq:
  "filterThrowing isMeaningfulChange (concreteItems bs) = Inr (meaningfulItems bs)"
proof -
  have "list_all isConcreteChange (concreteItems bs)"
    unfolding changes_eq [symmetric] by (simp add: list_all_iff)
  then show ?thesis
    by (simp add: filterThrowing_concrete meaningfulItems_def)
qed

lemma description_cases:
  assumes "optBodies s = Some bs"
  shows "validateDescriptionOfChanges s p =
     (if concreteItems bs = []
      then Returned (fail (ascii ''Description of Changes'') NoConcreteChanges p)
      else if meaningfulItems bs = []
      then Returned (fail (ascii ''Description of Changes'') ChangesNotMeaningful p)
      else Returned (pass (ascii ''Description of Changes'')
             (join ([0x0A] @ ascii ''    > '') (map rawOrEmpty (meaningfulItems bs))) p))"
  using assms
  by (simp add: validateDescriptionOfChanges_def changes_eq meaningfulChanges_eq)

text \<open>
  Claim C5. On a section with bodies, let S be \<open>concreteItems\<close>: the list items of all
  list-typed blocks in order, without those whose trimmed raw text is empty or absent and
  without those whose trimmed raw text holds a match of the placeholder pattern. With S
  empty the validator fails with \<open>NoConcreteChanges\<close>; with S not empty and no item of S
  longer than 10 after trimming, it fails with \<open>ChangesNotMeaningful\<close>; otherwise it
  passes and reports the raw texts of the items of S longer than 10 after trimming, joined.
\<close>

theorem description_outcome:
  assumes "optBodies s = Some bs"
  shows "validateDescriptionOfChanges s p =
     (if concreteItems bs = []
      then Returned (fail (ascii ''Description of Changes'') NoConcreteChanges p)
      else if meaningfulItems bs = []
      then Returned (fail (ascii ''Description of Changes'') ChangesNotMeaningful p)
      else Returned (pass (ascii ''Description of Changes'')
             (join ([0x0A] @ ascii ''    > '') (map rawOrEmpty (meaningfulItems bs))) p))"
  using assms by (rule description_cases)

text \<open>
  The witness: a single item \<^verbatim>\<open>Fixd\<close> (4 code units) fails with \<open>ChangesNotMeaningful\<close>,
  and an item \<^verbatim>\<open>Fixed the login bug\<close> beside a placeholder item passes, reported alone.
\<close>

theorem description_outcome_witness:
  "validateDescriptionOfChanges
     (Some \<lparr>bodies = Some [\<lparr>type = ascii ''list'', raw = Some (ascii ''- Fixd''),
                             items = Some [\<lparr>checked = False, raw = Some (ascii ''Fixd'')\<rparr>]\<rparr>]\<rparr>)
     initial
     = Returned (fail (ascii ''Description of Changes'') ChangesNotMeaningful initial)
   \<and> validateDescriptionOfChanges
     (Some \<lparr>bodies = Some [\<lparr>type = ascii ''list'', raw = None,
                             items = Some [\<lparr>checked = False, raw = Some (ascii ''<describe change here>'')\<rparr>,
                                           \<lparr>checked = True, raw = Some (ascii ''Fixed the login bug'')\<rparr>]\<rparr>]\<rparr>)
     initial
     = Returned (pass (ascii ''Description of Changes'') (ascii ''Fixed the login bug'') initial)"
  using description_outcome
    [of "Some \<lparr>bodies = Some [\<lparr>type = ascii ''list'', raw = Some (ascii ''- Fixd''),
                                 items = Some [\<lparr>checked = False, raw = Some (ascii ''Fixd'')\<rparr>]\<rparr>]\<rparr>"
        "[\<lparr>type = ascii ''list'', raw = Some (ascii ''- Fixd''),
           items = Some [\<lparr>checked = False, raw = Some (ascii ''Fixd'')\<rparr>]\<rparr>]" initial]
    description_outcome
    [of "Some \<lparr>bodies = Some [\<lparr>type = ascii ''list'', raw = None,
                             items = Some [\<lparr>checked = False, raw = Some (ascii ''<describe change here>'')\<rparr>,
                                           \<lparr>checked = True, raw = Some (ascii ''Fixed the login bug'')\<rparr>]\<rparr>]\<rparr>"
        "[\<lparr>type = ascii ''list'', raw = None,
                             items = Some [\<lparr>checked = False, raw = Some (ascii ''<describe change here>'')\<rparr>,
                                           \<lparr>checked = True, raw = Some (ascii ''Fixed the login bug'')\<rparr>]\<rparr>]" initial]
  by (simp add: optBodies_def concreteItems_def meaningfulItems_def allListItems_def
      itemsOrEmpty_def trimmedRaw_def rawOrEmpty_def trim_def isWhiteSpace_def ascii_def)

subsection \<open>Resolved issues\<close>

lemma issues_cases:
  assumes "optBodies s = Some bs"
  shows "validateResolvedIssuesSection s p =
     (case firstListBlock bs of
        None \<Rightarrow> Returned (fail (ascii ''GitHub Issues'') MissingIssueList p)
      | Some b \<Rightarrow>
          if blockRawOrEmpty b = []
          then Returned (fail (ascii ''GitHub Issues'') MissingIssueList p)
          else if GITHUB_ISSUE_FORMAT_match (blockRawOrEmpty b) \<noteq> []
                  \<or> includesStr (toLowerCase (blockRawOrEmpty b)) (ascii ''n/a'')
          then Returned (pass (ascii ''Issues resolved by this pull request'')
                 (if GITHUB_ISSUE_FORMAT_match (blockRawOrEmpty b) = [] then ascii ''N/A''
                  else join (ascii '','') (GITHUB_ISSUE_FORMAT_match (blockRawOrEmpty b))) p)
          else Returned (fail (ascii ''Missing Resolved Issues'')
                 (MissingResolvedIssues (blockRawOrEmpty b)) p))"
  using assms
  by (auto simp: validateResolvedIssuesSection_def firstListBlock_def listBlocks_def
      blockRawOrEmpty_def Let_def split: option.splits)

text \<open>
  Claim C6. On a section with bodies the validator looks at the first list-typed block
  only. Without one, or with its raw text empty or absent, it fails with
  \<open>MissingIssueList\<close>. Otherwise, with the matches of \<^verbatim>\<open>#\d+\<close> in the raw text, in order
  and with duplicates: it passes if and only if there is a match or the lowered raw text
  includes \<^verbatim>\<open>n/a\<close>, and fails with \<open>MissingResolvedIssues\<close> if not; a pass reports the
  matches, or \<^verbatim>\<open>N/A\<close> when there is none.
\<close>

theorem issues_outcome:
  assumes "optBodies s = Some bs"
  shows "validateResolvedIssuesSection s p =
     (case firstListBlock bs of
        None \<Rightarrow> Returned (fail (ascii ''GitHub Issues'') MissingIssueList p)
      | Some b \<Rightarrow>
          if blockRawOrEmpty b = []
          then Returned (fail (ascii ''GitHub Issues'') MissingIssueList p)
          else if GITHUB_ISSUE_FORMAT_match (blockRawOrEmpty b) \<noteq> []
                  \<or> includesStr (toLowerCase (blockRawOrEmpty b)) (ascii ''n/a'')
          then Returned (pass (ascii ''Issues resolved by this pull request'')
                 (if GITHUB_ISSUE_FORMAT_match (blockRawOrEmpty b) = [] then ascii ''N/A''
                  else join (ascii '','') (GITHUB_ISSUE_FORMAT_match (blockRawOrEmpty b))) p)
          else Returned (fail (ascii ''Missing Resolved Issues'')
                 (MissingResolvedIssues (blockRawOrEmpty b)) p))"
  using assms by (rule issues_cases)

text \<open>
  The witness: \<^verbatim>\<open>Fixes #42 and #108, #42\<close> passes with the three references in order, a text
  block before the list is skipped; \<^verbatim>\<open>No related issue, N/A\<close> passes with \<^verbatim>\<open>N/A\<close>.
\<close>

theorem issues_outcome_witness:
  "validateResolvedIssuesSection
     (Some \<lparr>bodies = Some [\<lparr>type = ascii ''text'', raw = Some (ascii ''#7''), items = None\<rparr>,
                           \<lparr>type = ascii ''list'', raw = Some (ascii ''Fixes #42 and #108, #42''),
                             items = None\<rparr>]\<rparr>) initial
     = Returned (pass (ascii ''Issues resolved by this pull request'')
         (ascii ''#42,#108,#42'') initial)
   \<and> validateResolvedIssuesSection
     (Some \<lparr>bodies = Some [\<lparr>type = ascii ''list'', raw = Some (ascii ''No related issue, N/A''),
                             items = None\<rparr>]\<rparr>) initial
     = Returned (pass (ascii ''Issues resolved by this pull request'') (ascii ''N/A'') initial)"
  using issues_outcome
    [of "Some \<lparr>bodies = Some [\<lparr>type = ascii ''text'', raw = Some (ascii ''#7''), items = None\<rparr>,
                           \<lparr>type = ascii ''list'', raw = Some (ascii ''Fixes #42 and #108, #42''),
                             items = None\<rparr>]\<rparr>"
        "[\<lparr>type = ascii ''text'', raw = Some (ascii ''#7''), items = None\<rparr>,
                           \<lparr>type = ascii ''list'', raw = Some (ascii ''Fixes #42 and #108, #42''),
                             items = None\<rparr>]" initial]
    issues_outcome
    [of "Some \<lparr>bodies = Some [\<lparr>type = ascii ''list'', raw = Some (ascii ''No related issue, N/A''),
                             items = None\<rparr>]\<rparr>"
        "[\<lparr>type = ascii ''list'', raw = Some (ascii ''No related issue, N/A''),
                             items = None\<rparr>]" initial]
  by (simp add: optBodies_def firstListBlock_def at0_def blockRawOrEmpty_def ascii_def
      isDigit_def toLowerCase_def lowerCaseUnit_def)

subsection \<open>The placeholder title as success criteria\<close>

text \<open>
  Claim C1. On a first checklist item whose trimmed raw text is the placeholder title, the
  validator calls \<open>fail\<close> with the \<open>PlaceholderCriteria\<close> message, does not return there,
  and calls \<open>pass\<close> with the same raw text: one invocation writes the fail line and the
  pass line, and the two outcomes are not exclusive.
\<close>

theorem qa_placeholder_fails_and_passes:
  "validateQaSection (qaSectionWith (Some SUCCESS_CRITERIA_TITLE)) initial
     = Returned \<lparr>stdout = [failLine (ascii ''Success criteria'')
                                (PlaceholderCriteria SUCCESS_CRITERIA_TITLE),
                             passLine (ascii ''Success criteria'') SUCCESS_CRITERIA_TITLE],
                  exitCode = 1\<rparr>"
proof -
  have "trim SUCCESS_CRITERIA_TITLE = SUCCESS_CRITERIA_TITLE"
    by (simp add: SUCCESS_CRITERIA_TITLE_def ascii_def trim_def isWhiteSpace_def)
  moreover have "SUCCESS_CRITERIA_TITLE \<noteq> []"
    by (simp add: SUCCESS_CRITERIA_TITLE_def ascii_def)
  ultimately show ?thesis
    by (simp add: validateQaSection_def qaSectionWith_def optBodies_def listBlocks_def at0_def
        fail_def pass_def initial_def)
qed

subsection \<open>The number of lines of one invocation\<close>

text \<open>
  The first two validators write one line on every input and never throw.
\<close>

lemma description_one_line:
  "\<exists>q l. validateDescriptionOfChanges s p = Returned q \<and> stdout q = stdout p @ [l]"
proof (cases "optBodies s")
  case None
  then show ?thesis
    by (simp add: validateDescriptionOfChanges_def stdout_fail)
next
  case (Some bs)
  then show ?thesis
    by (simp add: description_cases stdout_fail stdout_pass)
qed

lemma issues_one_line:
  "\<exists>q l. validateResolvedIssuesSection s p = Returned q \<and> stdout q = stdout p @ [l]"
proof (cases "optBodies s")
  case None
  then show ?thesis
    by (simp add: validateResolvedIssuesSection_def stdout_fail)
next
  case (Some bs)
  then show ?thesis
    by (simp add: issues_cases stdout_fail stdout_pass split: option.splits)
qed

text \<open>
  Claim C2. The quality assurance validator does not write one line on every input. On a
  first checklist item whose raw text is the placeholder title, one invocation writes two
  lines, a fail line and a pass line; on one whose raw text is the empty string it writes
  the \<open>InvalidCriteriaFormat\<close> fail line and then a pass line.
\<close>

theorem qa_writes_two_lines:
  "length (stdout (processOf
       (validateQaSection (qaSectionWith (Some SUCCESS_CRITERIA_TITLE)) initial))) = 2
   \<and> list_ex isFailLine (stdout (processOf
       (validateQaSection (qaSectionWith (Some SUCCESS_CRITERIA_TITLE)) initial)))
   \<and> list_ex isPassLine (stdout (processOf
       (validateQaSection (qaSectionWith (Some SUCCESS_CRITERIA_TITLE)) initial)))
   \<and> validateQaSection (qaSectionWith (Some [])) initial
       = Returned \<lparr>stdout = [failLine (ascii ''Quality Assurance'') InvalidCriteriaFormat,
                               passLine (ascii ''Success criteria'') []],
                    exitCode = 1\<rparr>"
proof -
  have "trim SUCCESS_CRITERIA_TITLE = SUCCESS_CRITERIA_TITLE"
    by (simp add: SUCCESS_CRITERIA_TITLE_def ascii_def trim_def isWhiteSpace_def)
  moreover have "SUCCESS_CRITERIA_TITLE \<noteq> []"
    by (simp add: SUCCESS_CRITERIA_TITLE_def ascii_def)
  moreover have "trim [] \<noteq> SUCCESS_CRITERIA_TITLE"
    by (simp add: SUCCESS_CRITERIA_TITLE_def ascii_def trim_def)
  ultimately show ?thesis
    by (simp add: validateQaSection_def qaSectionWith_def optBodies_def listBlocks_def at0_def
        fail_def pass_def initial_def isFailLine_failLine isPassLine_passLine)
qed

subsection \<open>The checked field\<close>

lemma raw_uncheckItem: "ListItem.raw (uncheckItem item) = ListItem.raw item"
  by (simp add: uncheckItem_def)

lemma isConcreteChange_uncheckItem: "isConcreteChange (uncheckItem item) = isConcreteChange item"
  by (simp add: isConcreteChange_def raw_uncheckItem)

lemma isMeaningfulChange_uncheckItem:
  "isMeaningfulChange (uncheckItem item) = isMeaningfulChange item"
  by (simp add: isMeaningfulChange_def raw_uncheckItem)

lemma rawOrEmpty_uncheckItem: "rawOrEmpty (uncheckItem item) = rawOrEmpty item"
  by (simp add: rawOrEmpty_def raw_uncheckItem)

lemma filter_isConcreteChange_uncheck:
  "filter isConcreteChange (map uncheckItem xs) = map uncheckItem (filter isConcreteChange xs)"
  by (induction xs) (simp_all add: isConcreteChange_uncheckItem)

lemma filterThrowing_uncheck:
  "filterThrowing isMeaningfulChange (map uncheckItem xs)
     = (case filterThrowing isMeaningfulChange xs of
          Inl e \<Rightarrow> Inl e | Inr ys \<Rightarrow> Inr (map uncheckItem ys))"
  by (induction xs) (simp_all add: isMeaningfulChange_uncheckItem split: sum.splits)

lemma map_rawOrEmpty_uncheck: "map (rawOrEmpty \<circ> uncheckItem) xs = map rawOrEmpty xs"
  by (simp add: rawOrEmpty_uncheckItem)

lemma itemsOrEmpty_uncheckBlock: "itemsOrEmpty (uncheckBlock b) = map uncheckItem (itemsOrEmpty b)"
  by (simp add: itemsOrEmpty_def uncheckBlock_def split: option.splits)

lemma listBlocks_uncheck: "listBlocks (map uncheckBlock bs) = map uncheckBlock (listBlocks bs)"
  by (induction bs) (simp_all add: listBlocks_def uncheckBlock_def)

lemma allItems_uncheck:
  "concat (map itemsOrEmpty (listBlocks (map uncheckBlock bs)))
     = map uncheckItem (concat (map itemsOrEmpty (listBlocks bs)))"
  by (simp add: listBlocks_uncheck map_concat o_def itemsOrEmpty_uncheckBlock)

lemma at0_map: "at0 (map f xs) = map_option f (at0 xs)"
  by (cases xs) (simp_all add: at0_def)

lemma optBodies_uncheck:
  "optBodies (map_option uncheckSection s) = map_option (map uncheckBlock) (optBodies s)"
  by (cases s) (simp_all add: optBodies_def uncheckSection_def)

lemma validateDescriptionOfChanges_uncheck:
  "validateDescriptionOfChanges (map_option uncheckSection s) p = validateDescriptionOfChanges s p"
  by (cases "optBodies s")
    (simp_all add: validateDescriptionOfChanges_def optBodies_uncheck allItems_uncheck
      filter_isConcreteChange_uncheck filterThrowing_uncheck map_rawOrEmpty_uncheck Let_def
      split: sum.splits)

lemma validateResolvedIssuesSection_uncheck:
  "validateResolvedIssuesSection (map_option uncheckSection s) p
     = validateResolvedIssuesSection s p"
  by (cases "optBodies s")
    (auto simp: validateResolvedIssuesSection_def optBodies_uncheck listBlocks_uncheck at0_map
      uncheckBlock_def split: option.splits)

lemma validateQaSection_uncheck:
  "validateQaSection (map_option uncheckSection s) p = validateQaSection s p"
  by (cases "optBodies s")
    (auto simp: validateQaSection_def optBodies_uncheck listBlocks_uncheck at0_map
      uncheckBlock_def raw_uncheckItem Let_def split: option.splits list.splits)

lemma run_uncheckDescription: "run (uncheckDescription d) = run d"
proof -
  have "validateResolvedIssuesSection (map_option uncheckSection s)
          = validateResolvedIssuesSection s" for s
    by (rule ext) (rule validateResolvedIssuesSection_uncheck)
  moreover have "validateQaSection (map_option uncheckSection s) = validateQaSection s" for s
    by (rule ext) (rule validateQaSection_uncheck)
  ultimately show ?thesis
    by (simp add: run_def uncheckDescription_def validateDescriptionOfChanges_uncheck)
qed

text \<open>
  Claim C10. No validator reads the checked field of a list item: two payloads that differ
  only in the checked fields of their list items have the same run, that is the same
  lines written, the same exit code, and the same way of ending.
\<close>

theorem checked_not_read:
  assumes "uncheckDescription d = uncheckDescription d'"
  shows "run d = run d'"
proof -
  have "run d = run (uncheckDescription d)"
    by (simp add: run_uncheckDescription)
  also have "\<dots> = run (uncheckDescription d')"
    by (simp add: assms)
  also have "\<dots> = run d'"
    by (simp add: run_uncheckDescription)
  finally show ?thesis .
qed

theorem checked_not_read_witness:
  "uncheckDescription (filledDescription False) = uncheckDescription (filledDescription True)
   \<and> filledDescription False \<noteq> filledDescription True
   \<and> run (filledDescription False) = run (filledDescription True)"
proof -
  have eq: "uncheckDescription (filledDescription False)
              = uncheckDescription (filledDescription True)"
    by (simp add: uncheckDescription_def uncheckSection_def uncheckBlock_def uncheckItem_def
        filledDescription_def)
  have "filledDescription False \<noteq> filledDescription True"
    by (simp add: filledDescription_def)
  with eq checked_not_read [OF eq] show ?thesis
    by simp
qed

subsection \<open>A run on three good sections\<close>

lemma qa_pass:
  assumes "optBodies s = Some bs" and "firstListBlock bs = Some b"
    and "items b = Some (item # rest)" and "ListItem.raw item = Some r"
    and "r \<noteq> []" and "trim r \<noteq> SUCCESS_CRITERIA_TITLE"
  shows "validateQaSection s p = Returned (pass (ascii ''Success criteria'') r p)"
  using assms
  by (simp add: validateQaSection_def firstListBlock_def listBlocks_def)

text \<open>
  Claim C9. When the pass conditions of the three validators hold (the description of
  changes has a meaningful item; the first list-typed block of the issues section has a
  raw text with a reference or with \<^verbatim>\<open>n/a\<close>; the first item of the first list-typed block of
  the quality assurance section has a raw text that is not empty and is not the
  placeholder title), the run returns with exit code 0, having written three pass lines:
  for the description of changes, then for the issues, then for the success criteria.
\<close>

theorem run_all_pass:
  assumes "optBodies (Description_of_changes d) = Some bs1"
    and "meaningfulItems bs1 \<noteq> []"
    and "optBodies (GitHub_issues_resolved_by_this_PR d) = Some bs2"
    and "firstListBlock bs2 = Some b2"
    and "MarkdownItem.raw b2 = Some r2" and "r2 \<noteq> []"
    and "GITHUB_ISSUE_FORMAT_match r2 \<noteq> [] \<or> includesStr (toLowerCase r2) (ascii ''n/a'')"
    and "optBodies (Quality_Assurance d) = Some bs3"
    and "firstListBlock bs3 = Some b3"
    and "items b3 = Some (item # rest)"
    and "ListItem.raw item = Some r3" and "r3 \<noteq> []"
    and "trim r3 \<noteq> SUCCESS_CRITERIA_TITLE"
  shows "run d = Returned
           \<lparr>stdout =
              [passLine (ascii ''Description of Changes'')
                 (join ([0x0A] @ ascii ''    > '') (map rawOrEmpty (meaningfulItems bs1))),
               passLine (ascii ''Issues resolved by this pull request'')
                 (if GITHUB_ISSUE_FORMAT_match r2 = [] then ascii ''N/A''
                  else join (ascii '','') (GITHUB_ISSUE_FORMAT_match r2)),
               passLine (ascii ''Success criteria'') r3],
            exitCode = 0\<rparr>
       \<and> exitStatus (run d) = 0"
proof -
  have c: "concreteItems bs1 \<noteq> []"
    using assms(2) by (auto simp: meaningfulItems_def)
  have r2: "blockRawOrEmpty b2 = r2"
    by (simp add: blockRawOrEmpty_def assms(5))
  have 1: "validateDescriptionOfChanges (Description_of_changes d) initial
             = Returned (pass (ascii ''Description of Changes'')
                 (join ([0x0A] @ ascii ''    > '') (map rawOrEmpty (meaningfulItems bs1))) initial)"
    using c assms(2) by (simp add: description_cases [OF assms(1)])
  have 2: "validateResolvedIssuesSection (GitHub_issues_resolved_by_this_PR d) p
             = Returned (pass (ascii ''Issues resolved by this pull request'')
                 (if GITHUB_ISSUE_FORMAT_match r2 = [] then ascii ''N/A''
                  else join (ascii '','') (GITHUB_ISSUE_FORMAT_match r2)) p)" for p
    using assms(6,7) by (simp add: issues_cases [OF assms(3)] assms(4) r2)
  have 3: "validateQaSection (Quality_Assurance d) p
             = Returned (pass (ascii ''Success criteria'') r3 p)" for p
    by (rule qa_pass [OF assms(8-13)])
  have "run d = Returned (pass (ascii ''Success criteria'') r3
                  (pass (ascii ''Issues resolved by this pull request'')
                     (if GITHUB_ISSUE_FORMAT_match r2 = [] then ascii ''N/A''
                      else join (ascii '','') (GITHUB_ISSUE_FORMAT_match r2))
                  (pass (ascii ''Description of Changes'')
                     (join ([0x0A] @ ascii ''    > '') (map rawOrEmpty (meaningfulItems bs1)))
                     initial)))"
    by (simp add: run_def 1 2 3)
  then show ?thesis
    by (simp add: pass_def initial_def)
qed

theorem run_all_pass_witness:
  "run (filledDescription False) = Returned
     \<lparr>stdout =
        [passLine (ascii ''Description of Changes'') (ascii ''Fixed the login bug''),
         passLine (ascii ''Issues resolved by this pull request'') (ascii ''#42,#108''),
         passLine (ascii ''Success criteria'') (ascii ''The login page loads'')],
      exitCode = 0\<rparr>
   \<and> exitStatus (run (filledDescription False)) = 0"
proof -
  let ?i1 = "\<lparr>checked = False, raw = Some (ascii ''Fixed the login bug'')\<rparr>"
  let ?b1 = "\<lparr>type = ascii ''list'', raw = Some (ascii ''- Fixed the login bug''),
              items = Some [?i1]\<rparr>"
  let ?b2 = "\<lparr>type = ascii ''list'', raw = Some (ascii ''- Fixes #42 and #108''),
              items = Some [\<lparr>checked = False, raw = Some (ascii ''Fixes #42 and #108'')\<rparr>]\<rparr>"
  let ?i3 = "\<lparr>checked = False, raw = Some (ascii ''The login page loads'')\<rparr>"
  let ?b3 = "\<lparr>type = ascii ''list'', raw = Some (ascii ''- The login page loads''),
              items = Some [?i3]\<rparr>"
  have a1: "optBodies (Description_of_changes (filledDescription False)) = Some [?b1]"
    by (simp add: filledDescription_def optBodies_def)
  have m: "meaningfulItems [?b1] = [?i1]"
    by (simp add: meaningfulItems_def concreteItems_def allListItems_def itemsOrEmpty_def
        trimmedRaw_def rawOrEmpty_def trim_def isWhiteSpace_def ascii_def)
  then have a2: "meaningfulItems [?b1] \<noteq> []"
    by simp
  have a3: "optBodies (GitHub_issues_resolved_by_this_PR (filledDescription False)) = Some [?b2]"
    by (simp add: filledDescription_def optBodies_def)
  have a4: "firstListBlock [?b2] = Some ?b2"
    by (simp add: firstListBlock_def at0_def)
  have a5: "MarkdownItem.raw ?b2 = Some (ascii ''- Fixes #42 and #108'')"
    by simp
  have a6: "ascii ''- Fixes #42 and #108'' \<noteq> []"
    by (simp add: ascii_def)
  have g: "GITHUB_ISSUE_FORMAT_match (ascii ''- Fixes #42 and #108'') = [ascii ''#42'', ascii ''#108'']"
    by (simp add: ascii_def isDigit_def)
  then have a7: "GITHUB_ISSUE_FORMAT_match (ascii ''- Fixes #42 and #108'') \<noteq> []
      \<or> includesStr (toLowerCase (ascii ''- Fixes #42 and #108'')) (ascii ''n/a'')"
    by simp
  have a8: "optBodies (Quality_Assurance (filledDescription False)) = Some [?b3]"
    by (simp add: filledDescription_def optBodies_def)
  have a9: "firstListBlock [?b3] = Some ?b3"
    by (simp add: firstListBlock_def at0_def)
  have a10: "items ?b3 = Some (?i3 # [])"
    by simp
  have a11: "ListItem.raw ?i3 = Some (ascii ''The login page loads'')"
    by simp
  have a12: "ascii ''The login page loads'' \<noteq> []"
    by (simp add: ascii_def)
  have a13: "trim (ascii ''The login page loads'') \<noteq> SUCCESS_CRITERIA_TITLE"
    by (simp add: SUCCESS_CRITERIA_TITLE_def trim_def isWhiteSpace_def ascii_def)
  from run_all_pass [OF a1 a2 a3 a4 a5 a6 a7 a8 a9 a10 a11 a12 a13] show ?thesis
    by (simp add: m g rawOrEmpty_def) (simp add: ascii_def)
qed

subsection \<open>The exit code\<close>

lemma stdout_initial: "stdout initial = []"
  by (simp add: initial_def)

lemma exitCode_initial: "exitCode initial = 0"
  by (simp add: initial_def)

lemma description_exit:
  "exitStatus (validateDescriptionOfChanges s p) = 0
     \<longleftrightarrow> exitCode p = 0 \<and> checkPassed validateDescriptionOfChanges s"
proof (cases "optBodies s")
  case None
  then show ?thesis
    by (simp add: validateDescriptionOfChanges_def checkPassed_def exitCode_fail stdout_fail
        stdout_initial not_isPassLine_failLine)
next
  case (Some bs)
  then show ?thesis
    by (simp add: description_cases checkPassed_def exitCode_fail exitCode_pass stdout_fail
        stdout_pass stdout_initial not_isPassLine_failLine isPassLine_passLine)
qed

lemma issues_exit:
  "exitStatus (validateResolvedIssuesSection s p) = 0
     \<longleftrightarrow> exitCode p = 0 \<and> checkPassed validateResolvedIssuesSection s"
proof (cases "optBodies s")
  case None
  then show ?thesis
    by (simp add: validateResolvedIssuesSection_def checkPassed_def exitCode_fail stdout_fail
        stdout_initial not_isPassLine_failLine)
next
  case (Some bs)
  then show ?thesis
    by (simp add: issues_cases checkPassed_def exitCode_fail exitCode_pass stdout_fail
        stdout_pass stdout_initial not_isPassLine_failLine isPassLine_passLine
        split: option.splits)
qed

lemma qa_exit:
  "exitStatus (validateQaSection s p) = 0
     \<longleftrightarrow> exitCode p = 0 \<and> checkPassed validateQaSection s"
  by (simp add: validateQaSection_def checkPassed_def exitCode_fail exitCode_pass stdout_fail
      stdout_pass stdout_initial not_isPassLine_failLine isPassLine_passLine Let_def
      split: option.splits list.splits)

lemma exitStatus_andThen:
  assumes "\<And>p. exitStatus (f p) = 0 \<longleftrightarrow> exitCode p = 0 \<and> C"
  shows "exitStatus (andThen r f) = 0 \<longleftrightarrow> exitStatus r = 0 \<and> C"
  by (cases r) (simp_all add: assms)

lemma run_exit:
  "exitStatus (run d) = 0 \<longleftrightarrow>
     checkPassed validateDescriptionOfChanges (Description_of_changes d)
     \<and> checkPassed validateResolvedIssuesSection (GitHub_issues_resolved_by_this_PR d)
     \<and> checkPassed validateQaSection (Quality_Assurance d)"
  by (simp add: run_def exitStatus_andThen [of _ "checkPassed validateQaSection (Quality_Assurance d)"]
      exitStatus_andThen [of _ "checkPassed validateResolvedIssuesSection (GitHub_issues_resolved_by_this_PR d)"]
      qa_exit issues_exit description_exit exitCode_initial)

text \<open>
  Claim C4. The exit code starts at zero; a call of \<open>fail\<close> sets it to a nonzero value; a
  call of \<open>pass\<close> leaves it as it is; a validator that starts with a nonzero exit code
  ends with a nonzero exit status; and the exit status of the run is zero if and only if
  each of the three section checks has passed, that is has reported a pass and no failure.
\<close>

theorem exit_status_monotonic:
  "exitCode initial = 0
   \<and> exitCode (fail fieldName message p) \<noteq> 0
   \<and> exitCode (pass fieldName message p) = exitCode p
   \<and> (exitCode p \<noteq> 0 \<longrightarrow>
        exitStatus (validateDescriptionOfChanges s p) \<noteq> 0
        \<and> exitStatus (validateResolvedIssuesSection s p) \<noteq> 0
        \<and> exitStatus (validateQaSection s p) \<noteq> 0)
   \<and> (exitStatus (run d) = 0 \<longleftrightarrow>
        checkPassed validateDescriptionOfChanges (Description_of_changes d)
        \<and> checkPassed validateResolvedIssuesSection (GitHub_issues_resolved_by_this_PR d)
        \<and> checkPassed validateQaSection (Quality_Assurance d))"
  by (simp add: exitCode_initial exitCode_fail exitCode_pass description_exit issues_exit
      qa_exit run_exit)

lemma filledDescription_exit: "exitStatus (run (filledDescription False)) = 0"
  by (simp add: run_def filledDescription_def validateDescriptionOfChanges_def
      validateResolvedIssuesSection_def validateQaSection_def optBodies_def listBlocks_def
      at0_def itemsOrEmpty_def isConcreteChange_def isMeaningfulChange_def trim_def
      isWhiteSpace_def isDigit_def SUCCESS_CRITERIA_TITLE_def ascii_def exitCode_pass
      exitCode_initial)

text \<open>
  The witness: after a failure the quality assurance check of the filled description, which
  passes, leaves the exit status nonzero; the run of the filled description exits with
  status 0 and its three checks have passed.
\<close>

theorem exit_status_monotonic_witness:
  "exitCode (fail [] [] initial) \<noteq> 0
   \<and> exitStatus (validateQaSection (Quality_Assurance (filledDescription False))
        (fail [] [] initial)) \<noteq> 0
   \<and> exitStatus (run (filledDescription False)) = 0
   \<and> checkPassed validateDescriptionOfChanges (Description_of_changes (filledDescription False))
   \<and> checkPassed validateResolvedIssuesSection
        (GitHub_issues_resolved_by_this_PR (filledDescription False))
   \<and> checkPassed validateQaSection (Quality_Assurance (filledDescription False))"
  using exit_status_monotonic
    [of "[]" "[]" "fail [] [] initial" "Quality_Assurance (filledDescription False)"
        "filledDescription False"]
    filledDescription_exit
  by (simp add: exitCode_fail)

end
